theory Spec2Isabelle
  imports Main
begin

section \<open>Strings of the source language\<close>

text \<open>
  A string of the source is a sequence of UTF-16 code units. The model uses \<^typ>\<open>string\<close>
  and so covers the code units below 256 (Latin-1); \<open>length\<close>, \<open>take\<close> and \<open>drop\<close> then count
  what \<open>.length\<close>, \<open>.substring\<close> and \<open>.slice\<close> count.
\<close>

text \<open>\<open>String.prototype.trim\<close>: the white space and line terminators below 256.\<close>

definition isWhiteSpace :: "char \<Rightarrow> bool" where
  "isWhiteSpace c \<longleftrightarrow>
     c \<in> set [CHR 0x09, CHR 0x0A, CHR 0x0B, CHR 0x0C, CHR 0x0D, CHR 0x20, CHR 0xA0]"

definition trim :: "string \<Rightarrow> string" where
  "trim s = rev (dropWhile isWhiteSpace (rev (dropWhile isWhiteSpace s)))"

text \<open>
  \<open>String.prototype.toLowerCase\<close> on Latin-1: the letters A-Z and the accented capitals
  0xC0-0xDE (without the multiplication sign 0xD7) each have the lower-case letter 32 above.
\<close>

definition upperLetters :: string where
  "upperLetters = ''ABCDEFGHIJKLMNOPQRSTUVWXYZ'' @
     [
        CHR 0xC0, CHR 0xC1, CHR 0xC2, CHR 0xC3, CHR 0xC4, CHR 0xC5, CHR 0xC6, CHR 0xC7,
        CHR 0xC8, CHR 0xC9, CHR 0xCA, CHR 0xCB, CHR 0xCC, CHR 0xCD, CHR 0xCE, CHR 0xCF,
        CHR 0xD0, CHR 0xD1, CHR 0xD2, CHR 0xD3, CHR 0xD4, CHR 0xD5, CHR 0xD6, CHR 0xD8,
        CHR 0xD9, CHR 0xDA, CHR 0xDB, CHR 0xDC, CHR 0xDD, CHR 0xDE]"

definition lowerLetters :: string where
  "lowerLetters = ''abcdefghijklmnopqrstuvwxyz'' @
     [
        CHR 0xE0, CHR 0xE1, CHR 0xE2, CHR 0xE3, CHR 0xE4, CHR 0xE5, CHR 0xE6, CHR 0xE7,
        CHR 0xE8, CHR 0xE9, CHR 0xEA, CHR 0xEB, CHR 0xEC, CHR 0xED, CHR 0xEE, CHR 0xEF,
        CHR 0xF0, CHR 0xF1, CHR 0xF2, CHR 0xF3, CHR 0xF4, CHR 0xF5, CHR 0xF6, CHR 0xF8,
        CHR 0xF9, CHR 0xFA, CHR 0xFB, CHR 0xFC, CHR 0xFD, CHR 0xFE]"

definition lowerChar :: "char \<Rightarrow> char" where
  "lowerChar c = (case map_of (zip upperLetters lowerLetters) c of Some l \<Rightarrow> l | None \<Rightarrow> c)"

definition toLowerCase :: "string \<Rightarrow> string" where
  "toLowerCase s = map lowerChar s"

text \<open>\<open>s.split(',')\<close>: the pieces between commas; the empty string gives one empty piece.\<close>

fun splitComma :: "string \<Rightarrow> string list" where
  "splitComma [] = [[]]"
| "splitComma (c # cs) =
     (if c = CHR '','' then [] # splitComma cs
      else (case splitComma cs of
              [] \<Rightarrow> [[c]]
            | piece # pieces \<Rightarrow> (c # piece) # pieces))"

text \<open>A truthy string is a non-empty one; \<open>null\<close> is \<open>None\<close>.\<close>

definition truthy :: "string \<Rightarrow> bool" where
  "truthy s \<longleftrightarrow> s \<noteq> []"

section \<open>The bracket tag\<close>

text \<open>
  \<open>prompt.match(/^\[(.*?)\]/)\<close> in \<open>handleGenerateScenes\<close>. The pattern is anchored at
  index 0, wants \<open>[\<close> there, then takes as few characters as it can up to a \<open>]\<close>; the dot
  does not match a line terminator. \<open>tagMatch\<close> returns capture group 1, \<open>None\<close> for no match.
\<close>

definition isLineTerminator :: "char \<Rightarrow> bool" where
  "isLineTerminator c \<longleftrightarrow> c = CHR 0x0A \<or> c = CHR 0x0D"

fun lazyUntilBracket :: "string \<Rightarrow> string option" where
  "lazyUntilBracket [] = None"
| "lazyUntilBracket (c # cs) =
     (if c = CHR '']'' then Some []
      else if isLineTerminator c then None
      else map_option ((#) c) (lazyUntilBracket cs))"

fun tagMatch :: "string \<Rightarrow> string option" where
  "tagMatch [] = None"
| "tagMatch (c # cs) = (if c = CHR ''['' then lazyUntilBracket cs else None)"

section \<open>Data model (\<open>types.ts\<close>)\<close>

text \<open>
  Field names are the source's, except where two interfaces share one: \<open>Character.id\<close> is
  \<open>char_id\<close>, \<open>GeneratedScene.id\<close> is \<open>scene_id\<close>, and the \<open>{name, base64}\<close> pair handed to
  scene generation has \<open>ref_name\<close>.
\<close>

record Character =
  char_id :: string
  name :: string
  description :: string
  baseImage :: "string option"

record GeneratedScene =
  scene_id :: string
  prompt :: string
  imageData :: string
  timestamp :: nat
  videoUrl :: "string option"

datatype GeneratorState =
  IDLE | GENERATING_CHARACTER | GENERATING_SCENE | GENERATING_ANIMATION | ERROR

record GenerationProgress =
  current :: nat
  total :: nat
  currentPrompt :: "string option"

record reference =
  ref_name :: string
  base64 :: string

section \<open>Reference resolution (\<open>handleGenerateScenes\<close>, the body of its \<open>try\<close>)\<close>

text \<open>\<open>character.baseImage && character.name\<close>\<close>

definition hasImageAndName :: "Character \<Rightarrow> bool" where
  "hasImageAndName c \<longleftrightarrow>
     (case baseImage c of None \<Rightarrow> False | Some img \<Rightarrow> truthy img \<and> truthy (name c))"

text \<open>\<open>{ name: character.name, base64: character.baseImage }\<close>, pushed when the test above holds.\<close>

definition activeReference :: "Character \<Rightarrow> reference list" where
  "activeReference character =
     (case baseImage character of
        None \<Rightarrow> []
      | Some img \<Rightarrow>
          if truthy img \<and> truthy (name character)
          then [\<lparr>ref_name = name character, base64 = img\<rparr>] else [])"

text \<open>\<open>allAvailable\<close>: the saved characters, then the active one when it has image and name.\<close>

definition allAvailable :: "Character \<Rightarrow> Character list \<Rightarrow> Character list" where
  "allAvailable character savedCharacters =
     savedCharacters @ (if hasImageAndName character then [character] else [])"

text \<open>
  The body of \<open>names.forEach\<close>: \<open>find\<close> gives the first character whose lower-cased name is
  the lower-cased tag name; a reference is pushed when it has a truthy image.
\<close>

definition pushFound :: "Character list \<Rightarrow> string \<Rightarrow> reference list \<Rightarrow> reference list" where
  "pushFound pool tagName references =
     (case find (\<lambda>c. toLowerCase (name c) = toLowerCase tagName) pool of
        None \<Rightarrow> references
      | Some found \<Rightarrow>
          (case baseImage found of
             None \<Rightarrow> references
           | Some img \<Rightarrow>
               if truthy img then references @ [\<lparr>ref_name = name found, base64 = img\<rparr>]
               else references))"

fun forEachName :: "Character list \<Rightarrow> string list \<Rightarrow> reference list \<Rightarrow> reference list" where
  "forEachName pool [] references = references"
| "forEachName pool (n # ns) references = forEachName pool ns (pushFound pool n references)"

text \<open>\<open>tagMatch[1].split(',').map(n => n.trim())\<close>\<close>

definition tagNames :: "string \<Rightarrow> string list" where
  "tagNames inner = map trim (splitComma inner)"

text \<open>
  The references of one prompt, or the message of the error thrown for it. The three steps
  are the source's: tag or active character, the last-resort fallback, the final test.
\<close>

definition noReferenceMessage :: string where
  "noReferenceMessage = ''No character reference found for this scene.''"

definition resolveReferences ::
  "Character \<Rightarrow> Character list \<Rightarrow> string \<Rightarrow> string + reference list" where
  "resolveReferences character savedCharacters prompt' =
     (let references =
            (case tagMatch prompt' of
               Some inner \<Rightarrow>
                 forEachName (allAvailable character savedCharacters) (tagNames inner) []
             | None \<Rightarrow> activeReference character);
          references =
            (if length references = 0 then references @ activeReference character
             else references)
      in if length references = 0 then Inl noReferenceMessage else Inr references)"

section \<open>Scene generation (\<open>services/gemini.ts\<close>, \<open>generateSceneImage\<close>)\<close>

text \<open>
  The remote model is outside the program: \<open>ai.models.generateContent\<close> is a parameter that
  either rejects with a message (\<open>Inl\<close>) or answers. Of the answer the code reads
  \<open>candidates[0].content.parts\<close> (\<open>None\<close> when any link of that chain is missing) and in each
  part \<open>inlineData.data\<close>.
\<close>

datatype part = InlineData string string | Text string

type_synonym request = "part list"

datatype response_part = ImagePart string | OtherPart

type_synonym response = "response_part list option"

text \<open>\<open>ref.base64.replace(/^data:image\/(png|jpeg|jpg);base64,/, '')\<close>\<close>

definition stripPrefix :: "string \<Rightarrow> string \<Rightarrow> string option" where
  "stripPrefix pre s = (if take (length pre) s = pre then Some (drop (length pre) s) else None)"

definition cleanBase64 :: "string \<Rightarrow> string" where
  "cleanBase64 s =
     (case stripPrefix ''data:image/png;base64,'' s of
        Some r \<Rightarrow> r
      | None \<Rightarrow>
          (case stripPrefix ''data:image/jpeg;base64,'' s of
             Some r \<Rightarrow> r
           | None \<Rightarrow>
               (case stripPrefix ''data:image/jpg;base64,'' s of
                  Some r \<Rightarrow> r
                | None \<Rightarrow> s)))"

text \<open>The loop over the references: one image part and one line of context for each.\<close>

fun addReferences :: "reference list \<Rightarrow> part list \<times> string \<Rightarrow> part list \<times> string" where
  "addReferences [] acc = acc"
| "addReferences (r # rs) (parts, promptContext) =
     addReferences rs
       (parts @ [InlineData ''image/png'' (cleanBase64 (base64 r))],
        promptContext @ ''- Reference for character '' @ [CHR 0x22] @ ref_name r @ [CHR 0x22]
          @ '' is provided above.'' @ [CHR 0x0A])"

definition sceneRequest :: "reference list \<Rightarrow> string \<Rightarrow> request" where
  "sceneRequest references scenePrompt =
     (let promptContext = ''Generate a scene based on the following description. '';
          (parts, promptContext) =
            (if length references > 0
             then (let (parts, promptContext) =
                         addReferences references
                           ([], promptContext
                                @ ''Use the provided reference images for character consistency:''
                                @ [CHR 0x0A])
                   in (parts,
                       promptContext @ [CHR 0x0A] @ ''SCENE DESCRIPTION: '' @ scenePrompt
                         @ [CHR 0x0A]
                         @ ''IMPORTANT: Maintain the facial features and appearance of the ''
                         @ ''characters as depicted in their reference images.''))
             else ([], promptContext @ [CHR 0x0A] @ ''SCENE DESCRIPTION: '' @ scenePrompt))
      in parts @ [Text promptContext])"

text \<open>The first part with truthy \<open>inlineData.data\<close>; \<open>''\<close> when there is none.\<close>

fun firstImage :: "response_part list \<Rightarrow> string" where
  "firstImage [] = []"
| "firstImage (ImagePart d # ps) = (if truthy d then d else firstImage ps)"
| "firstImage (OtherPart # ps) = firstImage ps"

text \<open>
  The \<open>catch\<close> blocks of the service: whatever was thrown is thrown again as
  \<open>new Error(error.message || fallback)\<close>.
\<close>

definition messageOr :: "string \<Rightarrow> string \<Rightarrow> string" where
  "messageOr message fallback = (if truthy message then message else fallback)"

definition rethrown :: "string \<Rightarrow> string + 'a \<Rightarrow> string + 'a" where
  "rethrown fallback r =
     (case r of Inl message \<Rightarrow> Inl (messageOr message fallback) | Inr v \<Rightarrow> Inr v)"

definition generateSceneImage ::
  "(request \<Rightarrow> string + response) \<Rightarrow> reference list \<Rightarrow> string \<Rightarrow> string + string" where
  "generateSceneImage generateContent references scenePrompt =
     rethrown ''Failed to generate scene''
       (case generateContent (sceneRequest references scenePrompt) of
          Inl message \<Rightarrow> Inl message
        | Inr response \<Rightarrow>
            (let base64Image = (case response of None \<Rightarrow> [] | Some ps \<Rightarrow> firstImage ps)
             in if \<not> truthy base64Image then Inl ''No image data found in scene response''
                else Inr base64Image))"

section \<open>Application state and the updates the handlers issue (\<open>App.tsx\<close>)\<close>

text \<open>
  The state hooks of \<open>App\<close> that the two handlers write. A handler issues updates in
  order; the functional updates (\<open>setScenes(prev => ...)\<close>, \<open>setAnimatingSceneIds(prev => ...)\<close>)
  act on whatever the state is when they are applied. A handler is therefore modelled by
  the list of updates it issues, and \<open>run\<close> applies them. \<open>character\<close>, \<open>savedCharacters\<close> and,
  in \<open>handleAnimateScene\<close>, \<open>scenes\<close> are read from the closure and are parameters.
  \<open>console.error\<close> is not part of the state and is left out.
\<close>

record app_state =
  scenes :: "GeneratedScene list"
  status :: GeneratorState
  error :: "string option"
  progress :: "GenerationProgress option"
  animatingSceneIds :: "string set"

datatype effect =
    SetStatus GeneratorState
  | SetError "string option"
  | SetProgress "GenerationProgress option"
  | AppendScene GeneratedScene
  | SetVideoUrl string string
  | AddAnimating string
  | DeleteAnimating string

fun apply_effect :: "app_state \<Rightarrow> effect \<Rightarrow> app_state" where
  "apply_effect st (SetStatus s) = st\<lparr>status := s\<rparr>"
| "apply_effect st (SetError e) = st\<lparr>error := e\<rparr>"
| "apply_effect st (SetProgress p) = st\<lparr>progress := p\<rparr>"
| "apply_effect st (AppendScene scene) = st\<lparr>scenes := scenes st @ [scene]\<rparr>"
| "apply_effect st (SetVideoUrl sceneId url) =
     st\<lparr>scenes := map (\<lambda>s. if scene_id s = sceneId then s\<lparr>videoUrl := Some url\<rparr> else s)
                      (scenes st)\<rparr>"
| "apply_effect st (AddAnimating sceneId) =
     st\<lparr>animatingSceneIds := insert sceneId (animatingSceneIds st)\<rparr>"
| "apply_effect st (DeleteAnimating sceneId) =
     st\<lparr>animatingSceneIds := animatingSceneIds st - {sceneId}\<rparr>"

definition run :: "app_state \<Rightarrow> effect list \<Rightarrow> app_state" where
  "run st effects = foldl apply_effect st effects"

section \<open>The scene batch (\<open>handleGenerateScenes\<close>)\<close>

text \<open>
  \<open>Number.prototype.toString\<close> on a non-negative integer: its decimal digits.
  \<open>digitChar\<close> is only applied to numbers below ten.
\<close>

definition digitChar :: "nat \<Rightarrow> char" where
  "digitChar d = ''0123456789'' ! d"

fun toString :: "nat \<Rightarrow> string" where
  "toString n = (if n < 10 then [digitChar n] else toString (n div 10) @ [digitChar (n mod 10)])"

declare toString.simps [simp del]

text \<open>
  What the outside answers during one iteration of the loop: the remote model, the two
  readings of \<open>Date.now()\<close> and \<open>Math.random().toString()\<close>.
\<close>

record world =
  generateContent :: "request \<Rightarrow> string + response"
  dateNowForId :: nat
  mathRandom :: string
  dateNowForTimestamp :: nat

definition newScene :: "world \<Rightarrow> string \<Rightarrow> string \<Rightarrow> GeneratedScene" where
  "newScene w prompt' sceneImageBase64 =
     \<lparr>scene_id = toString (dateNowForId w) @ drop 2 (mathRandom w),
      prompt = prompt',
      imageData = sceneImageBase64,
      timestamp = dateNowForTimestamp w,
      videoUrl = None\<rparr>"

text \<open>The body of the \<open>try\<close>: the new scene, or the message of what was thrown.\<close>

definition tryScene ::
  "Character \<Rightarrow> Character list \<Rightarrow> world \<Rightarrow> string \<Rightarrow> string + GeneratedScene" where
  "tryScene character savedCharacters w prompt' =
     (case resolveReferences character savedCharacters prompt' of
        Inl message \<Rightarrow> Inl message
      | Inr references \<Rightarrow>
          (case generateSceneImage (generateContent w) references prompt' of
             Inl message \<Rightarrow> Inl message
           | Inr sceneImageBase64 \<Rightarrow> Inr (newScene w prompt' sceneImageBase64)))"

definition failureText :: "string \<Rightarrow> string \<Rightarrow> string" where
  "failureText prompt' message =
     ''Failed to generate '' @ [CHR 0x22] @ take 20 prompt' @ ''...'' @ [CHR 0x22] @ '': ''
       @ message"

text \<open>
  The \<open>for\<close> loop. \<open>w i\<close> is the outside during the iteration on entry \<open>i\<close> of the list;
  \<open>n\<close> is \<open>prompts.length\<close>.
\<close>

fun sceneLoop ::
  "Character \<Rightarrow> Character list \<Rightarrow> (nat \<Rightarrow> world) \<Rightarrow> nat \<Rightarrow> nat \<Rightarrow> nat \<Rightarrow> string list
     \<Rightarrow> effect list" where
  "sceneLoop character savedCharacters w n i completedCount [] = []"
| "sceneLoop character savedCharacters w n i completedCount (prompt' # rest) =
     (if \<not> truthy (trim prompt')
      then sceneLoop character savedCharacters w n (Suc i) completedCount rest
      else SetProgress (Some \<lparr>current = completedCount + 1, total = n,
                               currentPrompt = Some prompt'\<rparr>)
           # (case tryScene character savedCharacters (w i) prompt' of
                Inr scene \<Rightarrow> AppendScene scene
              | Inl message \<Rightarrow> SetError (Some (failureText prompt' message)))
           # sceneLoop character savedCharacters w n (Suc i) (completedCount + 1) rest)"

definition handleGenerateScenes ::
  "Character \<Rightarrow> Character list \<Rightarrow> (nat \<Rightarrow> world) \<Rightarrow> string list \<Rightarrow> effect list" where
  "handleGenerateScenes character savedCharacters w prompts =
     (if length prompts = 0 then []
      else [SetStatus GENERATING_SCENE,
            SetError None,
            SetProgress (Some \<lparr>current = 0, total = length prompts, currentPrompt = None\<rparr>)]
           @ sceneLoop character savedCharacters w (length prompts) 0 0 prompts
           @ [SetStatus IDLE, SetProgress None])"

section \<open>Animation (\<open>services/gemini.ts\<close>, \<open>animateImage\<close>)\<close>

text \<open>
  Of the long-running operation the code reads \<open>done\<close>, \<open>error.message\<close> and
  \<open>response?.generatedVideos?.[0]?.video?.uri\<close>. The video service is a parameter:
  \<open>generateVideos\<close> on prompt and image bytes, the answer to the \<open>n\<close>-th call of
  \<open>operations.getVideosOperation\<close>, \<open>fetch\<close> on a URL, and \<open>process.env.API_KEY\<close>. Each call
  may reject with a message (\<open>Inl\<close>). A fetched response is \<open>NotOk\<close> or carries the object
  URL made of its blob. The five seconds between polls are not modelled.
\<close>

record operation =
  op_done :: bool
  op_error :: "string option"
  op_uri :: "string option"

datatype fetched = NotOk | Ok string

record video_service =
  generateVideos :: "string \<Rightarrow> string \<Rightarrow> string + operation"
  getVideosOperation :: "nat \<Rightarrow> string + operation"
  fetch :: "string \<Rightarrow> string + fetched"
  API_KEY :: string

text \<open>
  \<open>while (!operation.done)\<close>: there is no bound on the number of polls, so the loop is a
  partial function; \<open>None\<close> is the loop that never ends.
\<close>

partial_function (option) pollUntilDone ::
  "(nat \<Rightarrow> string + operation) \<Rightarrow> nat \<Rightarrow> operation \<Rightarrow> (string + operation) option" where
  "pollUntilDone poll n operation =
     (if op_done operation then Some (Inr operation)
      else (case poll n of
              Inl message \<Rightarrow> Some (Inl message)
            | Inr operation' \<Rightarrow> pollUntilDone poll (Suc n) operation'))"

text \<open>The code after the loop.\<close>

definition retrieveVideo :: "video_service \<Rightarrow> operation \<Rightarrow> string + string" where
  "retrieveVideo service operation =
     (case op_error operation of
        Some message \<Rightarrow> Inl (''Video generation failed: '' @ message)
      | None \<Rightarrow>
          (case op_uri operation of
             None \<Rightarrow> Inl ''No video URI received from API.''
           | Some downloadLink \<Rightarrow>
               if \<not> truthy downloadLink then Inl ''No video URI received from API.''
               else (case fetch service (downloadLink @ ''&key='' @ API_KEY service) of
                       Inl message \<Rightarrow> Inl message
                     | Inr NotOk \<Rightarrow> Inl ''Failed to download generated video.''
                     | Inr (Ok url) \<Rightarrow> Inr url)))"

definition animateImage :: "video_service \<Rightarrow> string \<Rightarrow> string \<Rightarrow> (string + string) option" where
  "animateImage service base64Image prompt' =
     map_option (rethrown ''Failed to animate scene'')
       (case generateVideos service prompt' (cleanBase64 base64Image) of
          Inl message \<Rightarrow> Some (Inl message)
        | Inr operation \<Rightarrow>
            (case pollUntilDone (getVideosOperation service) 0 operation of
               None \<Rightarrow> None
             | Some (Inl message) \<Rightarrow> Some (Inl message)
             | Some (Inr operation') \<Rightarrow> Some (retrieveVideo service operation')))"

section \<open>The animation job (\<open>handleAnimateScene\<close>)\<close>

text \<open>
  The check of \<open>window.aistudio\<close> before the job: absent, a key is selected, no key (with
  \<open>openSelectKey\<close> awaited when it exists), or one of the awaited calls rejects. Only the
  last keeps the job from starting.
\<close>

datatype gate = GateAbsent | KeySelected | NoKey | NoKeyAskedFor | GateRejected string

text \<open>
  How a call of the handler ends: it returns, it rejects (nothing catches what the gate
  throws), or it is still awaiting the video; each with the updates issued so far.
\<close>

datatype outcome = Returned "effect list" | Rejected string "effect list" | Pending "effect list"

definition issued :: "outcome \<Rightarrow> effect list" where
  "issued out = (case out of Returned es \<Rightarrow> es | Rejected message es \<Rightarrow> es | Pending es \<Rightarrow> es)"

definition handleAnimateScene ::
  "GeneratedScene list \<Rightarrow> gate \<Rightarrow> video_service \<Rightarrow> string \<Rightarrow> outcome" where
  "handleAnimateScene scenes' g service sceneId =
     (case find (\<lambda>s. scene_id s = sceneId) scenes' of
        None \<Rightarrow> Returned []
      | Some scene \<Rightarrow>
          (case g of
             GateRejected message \<Rightarrow> Rejected message []
           | _ \<Rightarrow>
               (case animateImage service (imageData scene) (prompt scene) of
                  None \<Rightarrow> Pending [AddAnimating sceneId]
                | Some (Inr url) \<Rightarrow>
                    Returned [AddAnimating sceneId, SetVideoUrl sceneId url,
                              DeleteAnimating sceneId]
                | Some (Inl message) \<Rightarrow>
                    Returned [AddAnimating sceneId,
                              SetError (Some (''Animation failed: '' @ message)),
                              DeleteAnimating sceneId])))"

section \<open>Script analysis (\<open>services/gemini.ts\<close>, \<open>analyzeScript\<close>)\<close>

text \<open>\<open>knownCharacters.join(', ')\<close>\<close>

fun joinComma :: "string list \<Rightarrow> string" where
  "joinComma [] = []"
| "joinComma [x] = x"
| "joinComma (x # y # ys) = x @ '', '' @ joinComma (y # ys)"

definition systemPrompt :: string where
  "systemPrompt = ''You are an expert storyboard artist and script visualizer.''"

definition charContext :: "string list \<Rightarrow> string" where
  "charContext knownCharacters =
     (if length knownCharacters > 0
      then [CHR 0x0A] @ ''KNOWN CHARACTERS: '' @ joinComma knownCharacters @ ''.''
      else [])"

definition instructions :: "string list \<Rightarrow> string" where
  "instructions knownCharacters =
     ''Analyze the following story/script. Break it down into distinct ''
     @ ''visual scenes. For each scene, write a detailed, standalone image ''
     @ ''generation prompt.''
     @ [CHR 0x0A]
     @ ''    ''
     @ charContext knownCharacters
     @ [CHR 0x0A]
     @ ''    ''
     @ [CHR 0x0A]
     @ ''    Guidelines:''
     @ [CHR 0x0A]
     @ ''    1. Each prompt must be descriptive (lighting, angle, action, ''
     @ ''environment).''
     @ [CHR 0x0A]
     @ ''    2. If the text contains dialogue, convert the context of that ''
     @ ''dialogue into a visual action.''
     @ [CHR 0x0A]
     @ ''    3. IMPORTANT: If any of the ''
     @ [CHR 0x22]
     @ ''KNOWN CHARACTERS''
     @ [CHR 0x22]
     @ '' appear in the scene, strictly prefix the prompt with their names in ''
     @ ''brackets, e.g., ''
     @ [CHR 0x22]
     @ ''[John] John enters the dark room''
     @ [CHR 0x22]
     @ '' or ''
     @ [CHR 0x22]
     @ ''[John, Mary] John and Mary talking in the park''
     @ [CHR 0x22]
     @ ''.''
     @ [CHR 0x0A]
     @ ''    4. If no known characters are present, do not use brackets.''
     @ [CHR 0x0A]
     @ ''    5. Output strictly a JSON list of strings.''
     @ [CHR 0x0A]
     @ ''    ''"

definition userPrompt :: "string list \<Rightarrow> string \<Rightarrow> string" where
  "userPrompt knownCharacters scriptText =
     instructions knownCharacters @ [CHR 0x0A, CHR 0x0A] @ ''Script:'' @ [CHR 0x0A]
       @ take 100000 scriptText"

text \<open>
  The request carries the prompt and the system instruction (model name, MIME type and
  schema are constants). The remote model rejects or answers with \<open>response.text\<close>, which
  may be missing. \<open>JSON.parse\<close> is the platform's and a parameter: a \<open>SyntaxError\<close> with its
  message, or the value, which the source types as \<open>string[]\<close>.
\<close>

record analysis_request =
  contents :: string
  systemInstruction :: string

definition analyzeScript ::
  "(analysis_request \<Rightarrow> string + string option) \<Rightarrow> (string \<Rightarrow> string + string list)
     \<Rightarrow> string \<Rightarrow> string list \<Rightarrow> string + string list" where
  "analyzeScript generateText JSON_parse scriptText knownCharacters =
     rethrown ''Failed to analyze script''
       (case generateText \<lparr>contents = userPrompt knownCharacters scriptText,
                             systemInstruction = systemPrompt\<rparr> of
          Inl message \<Rightarrow> Inl message
        | Inr text \<Rightarrow>
            (case text of
               None \<Rightarrow> Inr []
             | Some t \<Rightarrow> if \<not> truthy t then Inr [] else JSON_parse t))"

section \<open>The form that submits prompts (\<open>SceneGenerator\<close>, \<open>handleSubmit\<close>)\<close>

text \<open>
  \<open>handleGenerateScenes\<close> is handed to the \<open>SceneGenerator\<close> component as
  \<open>onGenerateScenes\<close> and is called nowhere else; the component calls it in \<open>handleSubmit\<close>
  only. A story that was analysed is written into the batch text and submitted from there.
\<close>

datatype InputMode = Single | Batch | Story

text \<open>\<open>promptInput.split('\n')\<close>\<close>

fun splitNewline :: "string \<Rightarrow> string list" where
  "splitNewline [] = [[]]"
| "splitNewline (c # cs) =
     (if c = CHR 0x0A then [] # splitNewline cs
      else (case splitNewline cs of
              [] \<Rightarrow> [[c]]
            | piece # pieces \<Rightarrow> (c # piece) # pieces))"

text \<open>
  The argument of the call of \<open>onGenerateScenes\<close>, \<open>None\<close> when no call is made. (The
  \<open>setPromptInput('')\<close> after the call is local to the form.)
\<close>

definition handleSubmit :: "bool \<Rightarrow> InputMode \<Rightarrow> string \<Rightarrow> string list option" where
  "handleSubmit isGenerating mode promptInput =
     (if isGenerating then None
      else (case mode of
              Single \<Rightarrow> if truthy (trim promptInput) then Some [promptInput] else None
            | Batch \<Rightarrow>
                (let prompts = filter (\<lambda>p. length p > 0) (map trim (splitNewline promptInput))
                 in if length prompts > 0 then Some prompts else None)
            | Story \<Rightarrow> None))"

section \<open>Reading a handler's updates\<close>

text \<open>
  Projections of a list of updates: the prompts announced by progress updates, the progress
  values published, the scenes appended, and the outcome recorded for each prompt tried.
  \<open>remoteSucceeds\<close> says that a prompt resolves to references and the remote call for it
  returns an image; \<open>producing\<close> lists the entries of a batch (with their positions) that
  are not blank and succeed. \<open>referenceFor\<close> is the reference one tag name stands for: that
  of the first character of the pool whose name equals it up to case, if that character
  has an image.
\<close>

definition announced :: "effect \<Rightarrow> string list" where
  "announced e =
     (case e of
        SetProgress (Some p) \<Rightarrow> (case currentPrompt p of Some q \<Rightarrow> [q] | None \<Rightarrow> [])
      | _ \<Rightarrow> [])"

definition attemptedPrompts :: "effect list \<Rightarrow> string list" where
  "attemptedPrompts effects = concat (map announced effects)"

definition appended :: "effect \<Rightarrow> GeneratedScene list" where
  "appended e = (case e of AppendScene s \<Rightarrow> [s] | _ \<Rightarrow> [])"

definition appendedScenes :: "effect list \<Rightarrow> GeneratedScene list" where
  "appendedScenes effects = concat (map appended effects)"

definition published :: "effect \<Rightarrow> GenerationProgress list" where
  "published e = (case e of SetProgress (Some p) \<Rightarrow> [p] | _ \<Rightarrow> [])"

definition publishedProgress :: "effect list \<Rightarrow> GenerationProgress list" where
  "publishedProgress effects = concat (map published effects)"

definition recorded :: "effect \<Rightarrow> (string + GeneratedScene) list" where
  "recorded e =
     (case e of
        AppendScene s \<Rightarrow> [Inr s]
      | SetError (Some message) \<Rightarrow> [Inl message]
      | _ \<Rightarrow> [])"

definition recordedOutcomes :: "effect list \<Rightarrow> (string + GeneratedScene) list" where
  "recordedOutcomes effects = concat (map recorded effects)"

text \<open>What the loop records for entry \<open>i\<close> of the list: the scene, or the error text.\<close>

definition outcomeOf ::
  "Character \<Rightarrow> Character list \<Rightarrow> (nat \<Rightarrow> world) \<Rightarrow> nat \<times> string
     \<Rightarrow> string + GeneratedScene" where
  "outcomeOf character savedCharacters w ip =
     (case tryScene character savedCharacters (w (fst ip)) (snd ip) of
        Inl message \<Rightarrow> Inl (failureText (snd ip) message)
      | Inr scene \<Rightarrow> Inr scene)"

text \<open>The update the loop issues after trying a prompt.\<close>

definition outcomeEffect :: "Character \<Rightarrow> Character list \<Rightarrow> world \<Rightarrow> string \<Rightarrow> effect" where
  "outcomeEffect character savedCharacters w prompt' =
     (case tryScene character savedCharacters w prompt' of
        Inr scene \<Rightarrow> AppendScene scene
      | Inl message \<Rightarrow> SetError (Some (failureText prompt' message)))"

definition remoteSucceeds :: "Character \<Rightarrow> Character list \<Rightarrow> world \<Rightarrow> string \<Rightarrow> bool" where
  "remoteSucceeds character savedCharacters w prompt' \<longleftrightarrow>
     (case resolveReferences character savedCharacters prompt' of
        Inl message \<Rightarrow> False
      | Inr references \<Rightarrow>
          \<not> isl (generateSceneImage (generateContent w) references prompt'))"

definition producing ::
  "Character \<Rightarrow> Character list \<Rightarrow> (nat \<Rightarrow> world) \<Rightarrow> string list \<Rightarrow> (nat \<times> string) list" where
  "producing character savedCharacters w prompts =
     filter (\<lambda>ip. truthy (trim (snd ip))
                  \<and> remoteSucceeds character savedCharacters (w (fst ip)) (snd ip))
       (enumerate 0 prompts)"

definition referenceFor :: "Character list \<Rightarrow> string \<Rightarrow> reference list" where
  "referenceFor pool tagName =
     (case find (\<lambda>c. toLowerCase (name c) = toLowerCase tagName) pool of
        None \<Rightarrow> []
      | Some found \<Rightarrow>
          (case baseImage found of
             None \<Rightarrow> []
           | Some img \<Rightarrow> if truthy img then [\<lparr>ref_name = name found, base64 = img\<rparr>] else []))"

section \<open>Example data\<close>

text \<open>
  \<open>INITIAL_CHARACTER\<close> is the source's (no name, no image). The rest are inputs for the
  examples: a saved character with an image, a remote model that paints and one that
  refuses, what the outside answers during a batch (one clock tick with the same random
  draw, one tick with two draws, and a run whose second call is refused), and two states.
\<close>

definition INITIAL_CHARACTER :: Character where
  "INITIAL_CHARACTER = \<lparr>char_id = ''1'', name = '''', description = '''', baseImage = None\<rparr>"

definition alice :: Character where
  "alice = \<lparr>char_id = ''7'', name = ''Alice'', description = ''a pilot'',
             baseImage = Some ''QUxJQ0U=''\<rparr>"

definition aliceReference :: reference where
  "aliceReference = \<lparr>ref_name = ''Alice'', base64 = ''QUxJQ0U=''\<rparr>"

definition paints :: "request \<Rightarrow> string + response" where
  "paints r = Inr (Some [OtherPart, ImagePart ''UElD''])"

definition sameTick :: "nat \<Rightarrow> world" where
  "sameTick i = \<lparr>generateContent = paints, dateNowForId = 1700000000000,
                  mathRandom = ''0.5234'', dateNowForTimestamp = 1700000000000\<rparr>"

definition tickWithDraws :: "nat \<Rightarrow> world" where
  "tickWithDraws i = \<lparr>generateContent = paints, dateNowForId = 1700000000000,
                       mathRandom = (if i = 0 then ''0.5234'' else ''0.25''),
                       dateNowForTimestamp = 1700000000000\<rparr>"

definition refuses :: "request \<Rightarrow> string + response" where
  "refuses r = Inl ''503 Service Unavailable''"

definition flaky :: "nat \<Rightarrow> world" where
  "flaky i = \<lparr>generateContent = (if i = 1 then refuses else paints),
               dateNowForId = 1700000000000 + i, mathRandom = ''0.5234'',
               dateNowForTimestamp = 1700000000000 + i\<rparr>"

definition idle :: app_state where
  "idle = \<lparr>scenes = [], status = IDLE, error = None, progress = None,
            animatingSceneIds = {}\<rparr>"

text \<open>
  A video service for the examples: the job is not done when submitted nor at the first
  two polls, and the third poll answers with the given operation; \<open>fetch\<close> answers as given.
\<close>

definition pendingOperation :: operation where
  "pendingOperation = \<lparr>op_done = False, op_error = None, op_uri = None\<rparr>"

definition studio :: "operation \<Rightarrow> fetched \<Rightarrow> video_service" where
  "studio final download =
     \<lparr>generateVideos = (\<lambda>prompt' imageBytes. Inr pendingOperation),
      getVideosOperation = (\<lambda>n. Inr (if n < 2 then pendingOperation else final)),
      fetch = (\<lambda>url. Inr download),
      API_KEY = ''k''\<rparr>"

definition finished :: operation where
  "finished = \<lparr>op_done = True, op_error = None, op_uri = Some ''https://videos/1?alt=media''\<rparr>"

definition failed :: operation where
  "failed = \<lparr>op_done = True, op_error = Some ''quota exceeded'', op_uri = None\<rparr>"

definition withoutUri :: operation where
  "withoutUri = \<lparr>op_done = True, op_error = None, op_uri = None\<rparr>"

definition dawnScene :: GeneratedScene where
  "dawnScene = \<lparr>scene_id = ''17000000000005234'', prompt = ''dawn'', imageData = ''UElD'',
                 timestamp = 1700000000000, videoUrl = None\<rparr>"

definition duskScene :: GeneratedScene where
  "duskScene = \<lparr>scene_id = ''170000000000025'', prompt = ''dusk'', imageData = ''UElD'',
                 timestamp = 1700000000000, videoUrl = None\<rparr>"

definition gallery :: app_state where
  "gallery = \<lparr>scenes = [dawnScene, duskScene], status = IDLE, error = None, progress = None,
               animatingSceneIds = {}\<rparr>"

text \<open>
  For script analysis: a model that answers in prose, one whose answer has no text, and
  what \<open>JSON.parse\<close> makes of the prose answer.
\<close>

definition proseAnswer :: "analysis_request \<Rightarrow> string + string option" where
  "proseAnswer r = Inr (Some ''Sorry, I cannot help.'')"

definition noAnswer :: "analysis_request \<Rightarrow> string + string option" where
  "noAnswer r = Inr None"

definition syntaxError :: "string \<Rightarrow> string + string list" where
  "syntaxError text = Inl ''Unexpected token S in JSON at position 0''"

lemmas string_eval =
  trim_def isWhiteSpace_def toLowerCase_def lowerChar_def upperLetters_def lowerLetters_def
  truthy_def isLineTerminator_def tagNames_def

lemmas resolver_eval =
  resolveReferences_def allAvailable_def hasImageAndName_def pushFound_def activeReference_def
  noReferenceMessage_def

section \<open>Facts used throughout\<close>

lemma run_append: "run st (es @ fs) = run (run st es) fs"
  by (simp add: run_def)

lemma run_Cons: "run st (e # es) = run (apply_effect st e) es"
  by (simp add: run_def)

lemma run_Nil: "run st [] = st"
  by (simp add: run_def)

lemma activeReference_empty_iff: "activeReference c = [] \<longleftrightarrow> \<not> hasImageAndName c"
  by (simp add: activeReference_def hasImageAndName_def split: option.splits)

lemma toString_tick: "toString 1700000000000 = ''1700000000000''"
  by (simp add: toString.simps digitChar_def)

section \<open>The batch tolerates failures\<close>

lemma sceneLoop_attempted:
  "attemptedPrompts (sceneLoop c saved w n i k ps) = filter (\<lambda>p. truthy (trim p)) ps"
  by (induction ps arbitrary: i k)
     (auto simp: attemptedPrompts_def announced_def split: sum.splits)

lemma tryScene_Inr_iff:
  "(\<exists>scene. tryScene c saved w p = Inr scene) \<longleftrightarrow> remoteSucceeds c saved w p"
  by (auto simp: tryScene_def remoteSucceeds_def split: sum.splits)

lemma tryScene_Inr_is_newScene:
  "tryScene c saved w p = Inr scene \<Longrightarrow>
     scene_id scene = toString (dateNowForId w) @ drop 2 (mathRandom w) \<and> prompt scene = p
       \<and> videoUrl scene = None \<and> timestamp scene = dateNowForTimestamp w"
  by (auto simp: tryScene_def newScene_def split: sum.splits)

lemma appendedScenes_Cons2:
  "appendedScenes (e # f # es) = appended e @ appended f @ appendedScenes es"
  by (simp add: appendedScenes_def)

lemma sceneLoop_appended_ids:
  "map (\<lambda>s. (scene_id s, prompt s)) (appendedScenes (sceneLoop c saved w n i k ps)) =
     map (\<lambda>ip. (toString (dateNowForId (w (fst ip))) @ drop 2 (mathRandom (w (fst ip))), snd ip))
       (filter (\<lambda>ip. truthy (trim (snd ip)) \<and> remoteSucceeds c saved (w (fst ip)) (snd ip))
          (enumerate i ps))"
proof (induction ps arbitrary: i k)
  case Nil
  then show ?case by (simp add: appendedScenes_def)
next
  case (Cons p ps)
  show ?case
  proof (cases "truthy (trim p)")
    case False
    with Cons.IH show ?thesis by simp
  next
    case True
    show ?thesis
    proof (cases "tryScene c saved (w i) p")
      case (Inl m)
      then have "\<not> remoteSucceeds c saved (w i) p"
        using tryScene_Inr_iff [of c saved "w i" p] by simp
      with Inl True Cons.IH show ?thesis
        by (simp add: appendedScenes_Cons2 appended_def)
    next
      case (Inr scene)
      then have "remoteSucceeds c saved (w i) p"
        using tryScene_Inr_iff [of c saved "w i" p] by auto
      with Inr True Cons.IH tryScene_Inr_is_newScene [OF Inr] show ?thesis
        by (simp add: appendedScenes_Cons2 appended_def)
    qed
  qed
qed

lemma recordedOutcomes_Cons2:
  "recordedOutcomes (e # f # es) = recorded e @ recorded f @ recordedOutcomes es"
  by (simp add: recordedOutcomes_def)

lemma sceneLoop_recorded:
  "recordedOutcomes (sceneLoop c saved w n i k ps) =
     map (outcomeOf c saved w) (filter (\<lambda>ip. truthy (trim (snd ip))) (enumerate i ps))"
proof (induction ps arbitrary: i k)
  case Nil
  then show ?case by (simp add: recordedOutcomes_def)
next
  case (Cons p ps)
  show ?case
  proof (cases "truthy (trim p)")
    case False
    with Cons.IH show ?thesis by simp
  next
    case True
    with Cons.IH show ?thesis
      by (cases "tryScene c saved (w i) p")
         (simp_all add: recordedOutcomes_Cons2 recorded_def outcomeOf_def)
  qed
qed

lemma handleGenerateScenes_recorded:
  "recordedOutcomes (handleGenerateScenes c saved w ps) =
     recordedOutcomes (sceneLoop c saved w (length ps) 0 0 ps)"
  by (cases "ps = []") (simp_all add: handleGenerateScenes_def recordedOutcomes_def recorded_def)

lemma sceneLoop_scenes:
  "scenes (run st (sceneLoop c saved w n i k ps)) =
     scenes st @ appendedScenes (sceneLoop c saved w n i k ps)"
proof (induction ps arbitrary: st i k)
  case Nil
  then show ?case by (simp add: run_Nil appendedScenes_def)
next
  case (Cons p ps)
  show ?case
  proof (cases "truthy (trim p)")
    case False
    with Cons.IH show ?thesis by simp
  next
    case True
    then show ?thesis
      by (cases "tryScene c saved (w i) p")
         (simp_all add: run_Cons Cons.IH appendedScenes_Cons2 appended_def)
  qed
qed

lemma handleGenerateScenes_attempted:
  "attemptedPrompts (handleGenerateScenes c saved w ps) =
     attemptedPrompts (sceneLoop c saved w (length ps) 0 0 ps)"
  by (cases "ps = []") (simp_all add: handleGenerateScenes_def attemptedPrompts_def announced_def)

lemma handleGenerateScenes_appended:
  "appendedScenes (handleGenerateScenes c saved w ps) =
     appendedScenes (sceneLoop c saved w (length ps) 0 0 ps)"
  by (cases "ps = []") (simp_all add: handleGenerateScenes_def appendedScenes_def appended_def)

lemma handleGenerateScenes_scenes:
  "scenes (run st (handleGenerateScenes c saved w ps)) =
     scenes st @ appendedScenes (handleGenerateScenes c saved w ps)"
proof (cases "ps = []")
  case True
  then show ?thesis
    by (simp add: handleGenerateScenes_def appendedScenes_def run_Nil)
next
  case False
  then have "scenes (run st (handleGenerateScenes c saved w ps)) =
      scenes (run (st\<lparr>status := GENERATING_SCENE, error := None,
                       progress := Some \<lparr>current = 0, total = length ps, currentPrompt = None\<rparr>\<rparr>)
                (sceneLoop c saved w (length ps) 0 0 ps))"
    by (simp add: handleGenerateScenes_def run_append run_Cons run_Nil)
  then show ?thesis
    by (simp add: sceneLoop_scenes handleGenerateScenes_appended)
qed

lemma handleGenerateScenes_prompts:
  "map prompt (appendedScenes (handleGenerateScenes c saved w ps)) =
     map snd (producing c saved w ps)"
proof -
  have "map (snd \<circ> (\<lambda>s. (scene_id s, prompt s)))
          (appendedScenes (sceneLoop c saved w (length ps) 0 0 ps)) =
        map (snd \<circ> (\<lambda>ip. (toString (dateNowForId (w (fst ip))) @ drop 2 (mathRandom (w (fst ip))),
                            snd ip)))
          (producing c saved w ps)"
    unfolding producing_def map_map [symmetric] sceneLoop_appended_ids ..
  then show ?thesis
    by (simp add: comp_def handleGenerateScenes_appended)
qed

lemma handleGenerateScenes_ids:
  "map scene_id (appendedScenes (handleGenerateScenes c saved w ps)) =
     map (\<lambda>ip. toString (dateNowForId (w (fst ip))) @ drop 2 (mathRandom (w (fst ip))))
       (producing c saved w ps)"
proof -
  have "map (fst \<circ> (\<lambda>s. (scene_id s, prompt s)))
          (appendedScenes (sceneLoop c saved w (length ps) 0 0 ps)) =
        map (fst \<circ> (\<lambda>ip. (toString (dateNowForId (w (fst ip))) @ drop 2 (mathRandom (w (fst ip))),
                            snd ip)))
          (producing c saved w ps)"
    unfolding producing_def map_map [symmetric] sceneLoop_appended_ids ..
  then show ?thesis
    by (simp add: comp_def handleGenerateScenes_appended)
qed

text \<open>
  C1. A failure on one prompt, in resolution or in the remote call, does not keep the
  later prompts from being attempted: every non-blank prompt of the batch is announced by
  a progress update and has its own outcome recorded, in order, whatever the outcomes
  before it. The prompts of the scenes appended are exactly the non-blank prompts for
  which resolution and remote generation succeed, in the order of submission, and the
  scene list afterwards is the one before followed by these scenes.
\<close>

theorem batch_continues_after_failure:
  "attemptedPrompts (handleGenerateScenes c saved w ps) = filter (\<lambda>p. truthy (trim p)) ps
   \<and> recordedOutcomes (handleGenerateScenes c saved w ps) =
       map (outcomeOf c saved w) (filter (\<lambda>ip. truthy (trim (snd ip))) (enumerate 0 ps))
   \<and> map prompt (appendedScenes (handleGenerateScenes c saved w ps)) =
       map snd (producing c saved w ps)
   \<and> scenes (run st (handleGenerateScenes c saved w ps)) =
       scenes st @ appendedScenes (handleGenerateScenes c saved w ps)"
  by (simp add: handleGenerateScenes_attempted sceneLoop_attempted
        handleGenerateScenes_recorded sceneLoop_recorded
        handleGenerateScenes_prompts handleGenerateScenes_scenes)

subsection \<open>The scenario of the specification\<close>

text \<open>
  The batch \<open>["Hello world", "[Alice] Alice waves"]\<close> with Alice saved and no active
  character: the first prompt fails to resolve, the second gives the one scene.
\<close>

lemma hello_fails: "tryScene INITIAL_CHARACTER [alice] w ''Hello world'' = Inl noReferenceMessage"
  by (simp add: tryScene_def resolver_eval string_eval INITIAL_CHARACTER_def)

lemma alice_waves_resolves:
  "resolveReferences INITIAL_CHARACTER [alice] ''[Alice] Alice waves'' = Inr [aliceReference]"
  by (simp add: resolver_eval string_eval INITIAL_CHARACTER_def alice_def aliceReference_def)

lemma paints_succeeds:
  "generateSceneImage paints references p = Inr ''UElD''"
  by (simp add: generateSceneImage_def rethrown_def paints_def truthy_def)

text \<open>
  Also a batch in which the first prompt fails to resolve, the remote call for the second
  is refused, and the third succeeds: all three are tried and the third gives the scene.
\<close>

lemma refuses_fails:
  "generateSceneImage refuses references p = Inl ''503 Service Unavailable''"
  by (simp add: generateSceneImage_def rethrown_def messageOr_def refuses_def truthy_def)

lemma alice_runs_resolves:
  "resolveReferences INITIAL_CHARACTER [alice] ''[Alice] Alice runs'' = Inr [aliceReference]"
  by (simp add: resolver_eval string_eval INITIAL_CHARACTER_def alice_def aliceReference_def)

theorem batch_continues_after_failure_witness:
  "attemptedPrompts (handleGenerateScenes INITIAL_CHARACTER [alice] sameTick
      [''Hello world'', ''[Alice] Alice waves'']) = [''Hello world'', ''[Alice] Alice waves'']
   \<and> map prompt (appendedScenes (handleGenerateScenes INITIAL_CHARACTER [alice] sameTick
      [''Hello world'', ''[Alice] Alice waves''])) = [''[Alice] Alice waves'']
   \<and> attemptedPrompts (handleGenerateScenes INITIAL_CHARACTER [alice] flaky
      [''Hello world'', ''[Alice] Alice waves'', ''[Alice] Alice runs''])
     = [''Hello world'', ''[Alice] Alice waves'', ''[Alice] Alice runs'']
   \<and> recordedOutcomes (handleGenerateScenes INITIAL_CHARACTER [alice] flaky
      [''Hello world'', ''[Alice] Alice waves'', ''[Alice] Alice runs''])
     = [Inl (failureText ''Hello world'' noReferenceMessage),
        Inl (failureText ''[Alice] Alice waves'' ''503 Service Unavailable''),
        Inr (newScene (flaky 2) ''[Alice] Alice runs'' ''UElD'')]
   \<and> map prompt (appendedScenes (handleGenerateScenes INITIAL_CHARACTER [alice] flaky
      [''Hello world'', ''[Alice] Alice waves'', ''[Alice] Alice runs''])) = [''[Alice] Alice runs'']"
proof -
  have a: "\<not> remoteSucceeds INITIAL_CHARACTER [alice] w ''Hello world''" for w
    using tryScene_Inr_iff [of INITIAL_CHARACTER "[alice]" w "''Hello world''"]
    by (simp add: hello_fails)
  have b0: "remoteSucceeds INITIAL_CHARACTER [alice] (sameTick i) ''[Alice] Alice waves''" for i
    by (simp add: remoteSucceeds_def alice_waves_resolves sameTick_def paints_succeeds)
  have p0: "producing INITIAL_CHARACTER [alice] sameTick [''Hello world'', ''[Alice] Alice waves'']
      = [(1, ''[Alice] Alice waves'')]"
    by (simp add: producing_def a b0 string_eval)
  have t1: "tryScene INITIAL_CHARACTER [alice] (flaky (Suc 0)) ''[Alice] Alice waves''
      = Inl ''503 Service Unavailable''"
    by (simp add: tryScene_def alice_waves_resolves flaky_def refuses_fails del: One_nat_def)
  have t2: "tryScene INITIAL_CHARACTER [alice] (flaky (Suc (Suc 0))) ''[Alice] Alice runs''
      = Inr (newScene (flaky (Suc (Suc 0))) ''[Alice] Alice runs'' ''UElD'')"
    by (simp add: tryScene_def alice_runs_resolves paints_succeeds flaky_def)
  have b: "\<not> remoteSucceeds INITIAL_CHARACTER [alice] (flaky (Suc 0)) ''[Alice] Alice waves''"
    using tryScene_Inr_iff [of INITIAL_CHARACTER "[alice]" "flaky (Suc 0)" "''[Alice] Alice waves''"]
    by (simp add: t1)
  have c: "remoteSucceeds INITIAL_CHARACTER [alice] (flaky (Suc (Suc 0))) ''[Alice] Alice runs''"
    using tryScene_Inr_iff [of INITIAL_CHARACTER "[alice]" "flaky (Suc (Suc 0))" "''[Alice] Alice runs''"]
    by (simp add: t2)
  have nb: "truthy (trim ''Hello world'')" "truthy (trim ''[Alice] Alice waves'')"
    "truthy (trim ''[Alice] Alice runs'')"
    by (simp_all add: string_eval)
  have p: "producing INITIAL_CHARACTER [alice] flaky
      [''Hello world'', ''[Alice] Alice waves'', ''[Alice] Alice runs'']
      = [(2, ''[Alice] Alice runs'')]"
    using a b c nb by (simp add: producing_def numeral_2_eq_2)
  have o: "outcomeOf INITIAL_CHARACTER [alice] flaky (0, ''Hello world'')
        = Inl (failureText ''Hello world'' noReferenceMessage)"
    "outcomeOf INITIAL_CHARACTER [alice] flaky (Suc 0, ''[Alice] Alice waves'')
        = Inl (failureText ''[Alice] Alice waves'' ''503 Service Unavailable'')"
    "outcomeOf INITIAL_CHARACTER [alice] flaky (Suc (Suc 0), ''[Alice] Alice runs'')
        = Inr (newScene (flaky (Suc (Suc 0))) ''[Alice] Alice runs'' ''UElD'')"
    using t1 t2 by (simp_all add: outcomeOf_def hello_fails)
  have first: "attemptedPrompts (handleGenerateScenes INITIAL_CHARACTER [alice] sameTick
      [''Hello world'', ''[Alice] Alice waves'']) = [''Hello world'', ''[Alice] Alice waves'']
   \<and> map prompt (appendedScenes (handleGenerateScenes INITIAL_CHARACTER [alice] sameTick
      [''Hello world'', ''[Alice] Alice waves''])) = [''[Alice] Alice waves'']"
    using batch_continues_after_failure [of INITIAL_CHARACTER "[alice]" sameTick
        "[''Hello world'', ''[Alice] Alice waves'']" idle]
    by (simp add: p0 string_eval)
  have second: "attemptedPrompts (handleGenerateScenes INITIAL_CHARACTER [alice] flaky
      [''Hello world'', ''[Alice] Alice waves'', ''[Alice] Alice runs''])
     = [''Hello world'', ''[Alice] Alice waves'', ''[Alice] Alice runs'']
   \<and> recordedOutcomes (handleGenerateScenes INITIAL_CHARACTER [alice] flaky
      [''Hello world'', ''[Alice] Alice waves'', ''[Alice] Alice runs''])
     = [Inl (failureText ''Hello world'' noReferenceMessage),
        Inl (failureText ''[Alice] Alice waves'' ''503 Service Unavailable''),
        Inr (newScene (flaky 2) ''[Alice] Alice runs'' ''UElD'')]
   \<and> map prompt (appendedScenes (handleGenerateScenes INITIAL_CHARACTER [alice] flaky
      [''Hello world'', ''[Alice] Alice waves'', ''[Alice] Alice runs''])) = [''[Alice] Alice runs'']"
    using batch_continues_after_failure [of INITIAL_CHARACTER "[alice]" flaky
        "[''Hello world'', ''[Alice] Alice waves'', ''[Alice] Alice runs'']" idle] nb
    by (simp add: p o numeral_2_eq_2)
  from first second show ?thesis by simp
qed

section \<open>The tag is anchored at the first character\<close>

lemma lazyUntilBracket_Some_iff:
  "lazyUntilBracket s = Some inner \<longleftrightarrow>
     (\<exists>rest. s = inner @ CHR '']'' # rest) \<and> CHR '']'' \<notin> set inner
       \<and> \<not> list_ex isLineTerminator inner"
proof (induction s arbitrary: inner)
  case Nil
  then show ?case by simp
next
  case (Cons c cs)
  show ?case
  proof (cases "c = CHR '']''")
    case True
    then show ?thesis
      by (cases inner) auto
  next
    case notbr: False
    show ?thesis
    proof (cases "isLineTerminator c")
      case True
      with notbr show ?thesis
        by (cases inner) auto
    next
      case False
      with notbr Cons.IH show ?thesis
        by (cases inner) auto
    qed
  qed
qed

text \<open>
  C2, amended. A tag is recognised exactly when the first character of the prompt is
  \<open>[\<close> and a \<open>]\<close> follows it with no line terminator in between; the tag is the text up to
  the first \<open>]\<close>. Nothing before the bracket is skipped, so a prompt that starts with
  white space has no tag.
\<close>

theorem tag_recognised_iff:
  "tagMatch p = Some inner \<longleftrightarrow>
     (\<exists>rest. p = CHR ''['' # inner @ CHR '']'' # rest) \<and> CHR '']'' \<notin> set inner
       \<and> \<not> list_ex isLineTerminator inner"
proof (cases p)
  case Nil
  then show ?thesis by simp
next
  case (Cons c cs)
  then show ?thesis
    by (cases "c = CHR ''[''") (auto simp: lazyUntilBracket_Some_iff)
qed

theorem tag_recognised_iff_witness:
  "tagMatch ''[Alice, Bob] at the harbour'' = Some ''Alice, Bob''"
proof -
  have "(\<exists>rest. ''[Alice, Bob] at the harbour'' = CHR ''['' # ''Alice, Bob'' @ CHR '']'' # rest)
        \<and> CHR '']'' \<notin> set ''Alice, Bob'' \<and> \<not> list_ex isLineTerminator ''Alice, Bob''"
    by (simp add: isLineTerminator_def)
  then show ?thesis
    by (rule tag_recognised_iff [THEN iffD2])
qed

text \<open>
  The claim as written fails: with a space before the bracket there is no tag, and the
  prompt that resolves to Alice without the space finds no reference with it.
\<close>

theorem tag_after_whitespace_counterexample:
  "tagMatch '' [Alice] Alice waves'' = None
   \<and> resolveReferences INITIAL_CHARACTER [alice] '' [Alice] Alice waves'' = Inl noReferenceMessage
   \<and> resolveReferences INITIAL_CHARACTER [alice] ''[Alice] Alice waves'' = Inr [aliceReference]"
  by (simp add: alice_waves_resolves)
     (simp add: resolver_eval INITIAL_CHARACTER_def)

section \<open>References of a tagged prompt\<close>

lemma pushFound_referenceFor: "pushFound pool n acc = acc @ referenceFor pool n"
  by (simp add: pushFound_def referenceFor_def split: option.splits)

lemma forEachName_concat:
  "forEachName pool ns acc = acc @ concat (map (referenceFor pool) ns)"
  by (induction ns arbitrary: acc) (simp_all add: pushFound_referenceFor)

text \<open>
  C3, amended. For a prompt with a recognised tag the references are, for each name of
  the tag in the order of the tag, the reference of the first available character whose
  name equals it up to case, when that character has an image; names without one are
  dropped. Nothing is removed from this list, so a character named twice appears twice.
  Only when the list is empty does the active character (if it has name and image) stand
  in, and without it resolution fails.
\<close>

theorem tag_references_in_tag_order:
  assumes "tagMatch p = Some inner"
  shows "resolveReferences c saved p =
     (let references = concat (map (referenceFor (allAvailable c saved)) (tagNames inner))
      in if references \<noteq> [] then Inr references
         else if hasImageAndName c then Inr (activeReference c)
         else Inl noReferenceMessage)"
  using assms
  by (simp add: resolveReferences_def forEachName_concat Let_def activeReference_empty_iff)

theorem tag_references_in_tag_order_witness:
  "tagMatch ''[Bob, alice , Zed] on deck'' = Some ''Bob, alice , Zed''
   \<and> resolveReferences INITIAL_CHARACTER [alice] ''[Bob, alice , Zed] on deck'' = Inr [aliceReference]"
proof -
  have t: "tagMatch ''[Bob, alice , Zed] on deck'' = Some ''Bob, alice , Zed''"
    by (simp add: isLineTerminator_def)
  have r: "concat (map (referenceFor (allAvailable INITIAL_CHARACTER [alice])) (tagNames ''Bob, alice , Zed''))
      = [aliceReference]"
    by (simp add: referenceFor_def resolver_eval string_eval INITIAL_CHARACTER_def alice_def aliceReference_def)
  show ?thesis
    using tag_references_in_tag_order [OF t, of INITIAL_CHARACTER "[alice]"] t
    by (simp add: r)
qed

text \<open>The claim as written fails: a tag that names Alice twice gives her reference twice.\<close>

theorem references_not_deduplicated_counterexample:
  "resolveReferences INITIAL_CHARACTER [alice] ''[Alice, alice] Alice waves''
     = Inr [aliceReference, aliceReference]
   \<and> \<not> distinct [aliceReference, aliceReference]"
  by (simp add: resolver_eval string_eval INITIAL_CHARACTER_def alice_def aliceReference_def)

section \<open>Untagged prompts\<close>





section \<open>The total that is published\<close>

lemma publishedProgress_Cons:
  "publishedProgress (e # es) = published e @ publishedProgress es"
  by (simp add: publishedProgress_def)

lemma publishedProgress_Nil: "publishedProgress [] = []"
  by (simp add: publishedProgress_def)

text \<open>
  What the loop publishes in general: one progress value for each non-blank prompt, before
  its outcome, with \<open>current\<close> counting the non-blank prompts so far and \<open>total\<close> the
  length of the whole list.
\<close>

lemma sceneLoop_published:
  "publishedProgress (sceneLoop c saved w n i k ps) =
     map (\<lambda>jp. \<lparr>current = fst jp + 1, total = n, currentPrompt = Some (snd jp)\<rparr>)
       (enumerate k (filter (\<lambda>p. truthy (trim p)) ps))"
proof (induction ps arbitrary: i k)
  case Nil
  then show ?case by (simp add: publishedProgress_Nil)
next
  case (Cons p ps)
  show ?case
  proof (cases "truthy (trim p)")
    case False
    with Cons.IH show ?thesis by simp
  next
    case True
    have none: "published (case tryScene c saved (w i) p of
                  Inl message \<Rightarrow> SetError (Some (failureText p message))
                | Inr scene \<Rightarrow> AppendScene scene) = []"
      by (cases "tryScene c saved (w i) p") (simp_all add: published_def)
    have one: "published (SetProgress (Some \<lparr>current = k + 1, total = n,
                 currentPrompt = Some p\<rparr>)) =
               [\<lparr>current = k + 1, total = n, currentPrompt = Some p\<rparr>]"
      by (simp add: published_def)
    show ?thesis
      using True Cons.IH [of "Suc i" "k + 1"]
      by (simp add: publishedProgress_Cons none one del: One_nat_def) simp
  qed
qed

lemma handleGenerateScenes_published:
  "ps \<noteq> [] \<Longrightarrow>
   publishedProgress (handleGenerateScenes c saved w ps) =
     \<lparr>current = 0, total = length ps, currentPrompt = None\<rparr>
     # map (\<lambda>jp. \<lparr>current = fst jp + 1, total = length ps, currentPrompt = Some (snd jp)\<rparr>)
         (enumerate 0 (filter (\<lambda>p. truthy (trim p)) ps))"
proof -
  have split: "publishedProgress (es @ fs) = publishedProgress es @ publishedProgress fs"
    for es fs
    by (simp add: publishedProgress_def)
  assume "ps \<noteq> []"
  then show ?thesis
    by (simp add: handleGenerateScenes_def split publishedProgress_Cons publishedProgress_Nil
          sceneLoop_published)
       (simp add: published_def)
qed

lemma trim_trim: "trim (trim s) = trim s"
proof -
  define u where "u = dropWhile isWhiteSpace s"
  define v where "v = dropWhile isWhiteSpace (rev u)"
  have t: "trim s = rev v"
    by (simp add: trim_def u_def v_def)
  show ?thesis
  proof (cases "v = []")
    case True
    with t have "trim s = []" by simp
    then show ?thesis by (simp add: trim_def [of "[]"])
  next
    case False
    then have ru: "rev u \<noteq> []"
      by (auto simp: v_def)
    have hv: "\<not> isWhiteSpace (hd v)"
      using False unfolding v_def by (rule hd_dropWhile)
    have "rev u = takeWhile isWhiteSpace (rev u) @ v"
      by (simp add: v_def)
    then have "last (rev u) = last v"
      using False by (metis last_appendR)
    then have lv: "last v = hd u"
      using ru by (simp add: last_rev)
    have "u \<noteq> []"
      using ru by simp
    then have "\<not> isWhiteSpace (hd u)"
      unfolding u_def by (rule hd_dropWhile)
    with lv have "\<not> isWhiteSpace (hd (rev v))"
      using False by (simp add: hd_rev)
    then have a: "dropWhile isWhiteSpace (rev v) = rev v"
      by (simp add: dropWhile_eq_self_iff)
    have b: "dropWhile isWhiteSpace v = v"
      using hv by (simp add: dropWhile_eq_self_iff)
    show ?thesis
      by (simp add: t) (simp add: trim_def a b)
  qed
qed

lemma handleSubmit_no_blank:
  assumes "handleSubmit isGenerating mode promptInput = Some prompts"
  shows "filter (\<lambda>p. truthy (trim p)) prompts = prompts"
proof (cases mode)
  case Single
  with assms show ?thesis
    by (auto simp: handleSubmit_def split: if_splits)
next
  case Batch
  with assms have "prompts = filter (\<lambda>p. length p > 0) (map trim (splitNewline promptInput))"
    by (auto simp: handleSubmit_def Let_def split: if_splits)
  then have "\<forall>p\<in>set prompts. truthy (trim p)"
    by (auto simp: trim_trim truthy_def)
  then show ?thesis
    by (simp add: filter_id_conv)
next
  case Story
  with assms show ?thesis
    by (simp add: handleSubmit_def split: if_splits)
qed

lemma handleSubmit_batch:
  assumes "handleSubmit isGenerating Batch promptInput = Some prompts"
  shows "prompts = map trim (filter (\<lambda>e. truthy (trim e)) (splitNewline promptInput))"
  using assms
  by (auto simp: handleSubmit_def Let_def filter_map comp_def truthy_def split: if_splits)

lemma sceneLoop_no_blank:
  assumes "filter (\<lambda>p. truthy (trim p)) ps = ps"
  shows "sceneLoop c saved w n i i ps =
     concat (map (\<lambda>jp. [SetProgress (Some \<lparr>current = fst jp + 1, total = n,
                                              currentPrompt = Some (snd jp)\<rparr>),
                          outcomeEffect c saved (w (fst jp)) (snd jp)])
               (enumerate i ps))"
  using assms
proof (induction ps arbitrary: i)
  case Nil
  then show ?case by simp
next
  case (Cons p ps)
  from Cons.prems have all: "\<forall>q\<in>set (p # ps). truthy (trim q)"
    by (simp only: filter_id_conv)
  then have p: "truthy (trim p)" and ps: "filter (\<lambda>p. truthy (trim p)) ps = ps"
    by (simp_all add: filter_id_conv)
  show ?case
    using p Cons.IH [OF ps, of "Suc i"]
    by (simp add: outcomeEffect_def cong: sum.case_cong)
qed

text \<open>
  C5. The handler receives its list from the form, which in batch mode trims the lines of
  the text and removes the blank ones before the call. So no entry it receives is blank,
  and the \<open>total\<close> published, the length of that list, counts the non-blank entries only;
  in batch mode it is the number of non-blank lines of the text. The first progress value
  is \<open>{current: 0, total}\<close>, and for each prompt \<open>{current: index + 1, total, currentPrompt}\<close>
  is issued directly before the update that records the outcome of trying it.
\<close>

theorem total_counts_submitted_entries:
  assumes "handleSubmit isGenerating mode promptInput = Some prompts"
  shows "filter (\<lambda>p. truthy (trim p)) prompts = prompts
     \<and> (mode = Batch \<longrightarrow>
          prompts = map trim (filter (\<lambda>e. truthy (trim e)) (splitNewline promptInput)))
     \<and> publishedProgress (handleGenerateScenes c saved w prompts) =
          \<lparr>current = 0, total = length (filter (\<lambda>p. truthy (trim p)) prompts),
             currentPrompt = None\<rparr>
          # map (\<lambda>jp. \<lparr>current = fst jp + 1,
                         total = length (filter (\<lambda>p. truthy (trim p)) prompts),
                         currentPrompt = Some (snd jp)\<rparr>)
              (enumerate 0 prompts)
     \<and> (mode = Batch \<longrightarrow>
          length (filter (\<lambda>p. truthy (trim p)) prompts) =
            length (filter (\<lambda>e. truthy (trim e)) (splitNewline promptInput)))
     \<and> handleGenerateScenes c saved w prompts =
          [SetStatus GENERATING_SCENE, SetError None,
           SetProgress (Some \<lparr>current = 0,
                               total = length (filter (\<lambda>p. truthy (trim p)) prompts),
                               currentPrompt = None\<rparr>)]
          @ concat (map (\<lambda>jp. [SetProgress (Some \<lparr>current = fst jp + 1,
                                    total = length (filter (\<lambda>p. truthy (trim p)) prompts),
                                    currentPrompt = Some (snd jp)\<rparr>),
                                outcomeEffect c saved (w (fst jp)) (snd jp)])
                      (enumerate 0 prompts))
          @ [SetStatus IDLE, SetProgress None]"
proof -
  have nb: "filter (\<lambda>p. truthy (trim p)) prompts = prompts"
    using assms by (rule handleSubmit_no_blank)
  have ne: "prompts \<noteq> []"
    using assms by (auto simp: handleSubmit_def Let_def split: if_splits InputMode.splits)
  have b: "mode = Batch \<longrightarrow>
      prompts = map trim (filter (\<lambda>e. truthy (trim e)) (splitNewline promptInput))"
    using assms handleSubmit_batch by blast
  have pub: "publishedProgress (handleGenerateScenes c saved w prompts) =
          \<lparr>current = 0, total = length prompts, currentPrompt = None\<rparr>
          # map (\<lambda>jp. \<lparr>current = fst jp + 1, total = length prompts,
                         currentPrompt = Some (snd jp)\<rparr>)
              (enumerate 0 prompts)"
    using handleGenerateScenes_published [OF ne, of c saved w] by (simp add: nb)
  have eff: "handleGenerateScenes c saved w prompts =
          [SetStatus GENERATING_SCENE, SetError None,
           SetProgress (Some \<lparr>current = 0, total = length prompts, currentPrompt = None\<rparr>)]
          @ concat (map (\<lambda>jp. [SetProgress (Some \<lparr>current = fst jp + 1,
                                    total = length prompts,
                                    currentPrompt = Some (snd jp)\<rparr>),
                                outcomeEffect c saved (w (fst jp)) (snd jp)])
                      (enumerate 0 prompts))
          @ [SetStatus IDLE, SetProgress None]"
    using ne by (simp add: handleGenerateScenes_def sceneLoop_no_blank [OF nb])
  have len: "mode = Batch \<longrightarrow>
          length prompts = length (filter (\<lambda>e. truthy (trim e)) (splitNewline promptInput))"
    using b by auto
  show ?thesis
    unfolding nb by (intro conjI refl b pub eff len)
qed

theorem total_counts_submitted_entries_witness:
  "handleSubmit False Batch (''dawn'' @ [CHR 0x0A] @ ''  '' @ [CHR 0x0A] @ '' dusk'')
     = Some [''dawn'', ''dusk'']
   \<and> splitNewline (''dawn'' @ [CHR 0x0A] @ ''  '' @ [CHR 0x0A] @ '' dusk'')
     = [''dawn'', ''  '', '' dusk'']
   \<and> publishedProgress (handleGenerateScenes alice [] sameTick [''dawn'', ''dusk'']) =
     [\<lparr>current = 0, total = 2, currentPrompt = None\<rparr>,
      \<lparr>current = 1, total = 2, currentPrompt = Some ''dawn''\<rparr>,
      \<lparr>current = 2, total = 2, currentPrompt = Some ''dusk''\<rparr>]"
proof -
  have h: "handleSubmit False Batch (''dawn'' @ [CHR 0x0A] @ ''  '' @ [CHR 0x0A] @ '' dusk'')
     = Some [''dawn'', ''dusk'']"
    by (simp add: handleSubmit_def string_eval)
  have s: "splitNewline (''dawn'' @ [CHR 0x0A] @ ''  '' @ [CHR 0x0A] @ '' dusk'')
     = [''dawn'', ''  '', '' dusk'']"
    by simp
  have nb: "truthy (trim ''dawn'')" "truthy (trim ''dusk'')"
    by (simp_all add: string_eval)
  have "publishedProgress (handleGenerateScenes alice [] sameTick [''dawn'', ''dusk'']) =
     [\<lparr>current = 0, total = 2, currentPrompt = None\<rparr>,
      \<lparr>current = 1, total = 2, currentPrompt = Some ''dawn''\<rparr>,
      \<lparr>current = 2, total = 2, currentPrompt = Some ''dusk''\<rparr>]"
    using total_counts_submitted_entries
            [OF h, of alice "[]" sameTick, THEN conjunct2, THEN conjunct2, THEN conjunct1] nb
    by simp
  with h s show ?thesis by simp
qed

text \<open>
  The loop also skips blank entries itself. Were the handler called with a list that has
  one, the skipped entry would still be counted in \<open>total\<close>; the form never makes that call.
\<close>

lemma direct_call_counts_blank_entry:
  "publishedProgress (handleGenerateScenes c saved w [''dawn'', ''  '', ''dusk'']) =
     [\<lparr>current = 0, total = 3, currentPrompt = None\<rparr>,
      \<lparr>current = 1, total = 3, currentPrompt = Some ''dawn''\<rparr>,
      \<lparr>current = 2, total = 3, currentPrompt = Some ''dusk''\<rparr>]"
  by (simp add: handleGenerateScenes_def publishedProgress_Cons publishedProgress_Nil
        published_def string_eval split: sum.splits)

section \<open>Scene ids\<close>

lemma producing_index: "ip \<in> set (producing c saved w ps) \<Longrightarrow> fst ip < length ps"
  by (auto simp: producing_def in_set_enumerate_eq)

lemma distinct_map_prefixed:
  "distinct (map (\<lambda>x. pre @ f x) xs) \<longleftrightarrow> distinct (map f xs)"
  by (simp add: distinct_map inj_on_def)

text \<open>
  C6, amended. An id is the decimal clock reading followed by what
  \<open>Math.random().toString()\<close> has after its first two characters. For the scenes a batch
  mints within one clock tick the ids are pairwise distinct exactly when these random
  suffixes are; nothing in the code makes them so.
\<close>

theorem scene_ids_in_one_tick:
  assumes "\<forall>i<length ps. dateNowForId (w i) = t"
  shows "map scene_id (appendedScenes (handleGenerateScenes c saved w ps)) =
           map (\<lambda>ip. toString t @ drop 2 (mathRandom (w (fst ip)))) (producing c saved w ps)
         \<and> (distinct (map scene_id (appendedScenes (handleGenerateScenes c saved w ps))) \<longleftrightarrow>
              distinct (map (\<lambda>ip. drop 2 (mathRandom (w (fst ip)))) (producing c saved w ps)))"
proof -
  have ids: "map scene_id (appendedScenes (handleGenerateScenes c saved w ps)) =
           map (\<lambda>ip. toString t @ drop 2 (mathRandom (w (fst ip)))) (producing c saved w ps)"
    unfolding handleGenerateScenes_ids
    using assms by (auto dest: producing_index)
  show ?thesis
    unfolding ids by (simp add: distinct_map_prefixed)
qed

lemma alice_resolves_untagged:
  "tagMatch p = None \<Longrightarrow> resolveReferences alice [] p = Inr [aliceReference]"
  by (simp add: resolver_eval alice_def aliceReference_def truthy_def)

lemma producing_dawn_dusk:
  assumes "\<And>i. generateContent (w i) = paints"
  shows "producing alice [] w [''dawn'', ''dusk''] = [(0, ''dawn''), (1, ''dusk'')]"
proof -
  have "remoteSucceeds alice [] (w i) ''dawn''" "remoteSucceeds alice [] (w i) ''dusk''" for i
    by (simp_all add: remoteSucceeds_def alice_resolves_untagged assms paints_succeeds)
  then show ?thesis
    by (simp add: producing_def string_eval)
qed

theorem scene_ids_in_one_tick_witness:
  "map scene_id (appendedScenes (handleGenerateScenes alice [] tickWithDraws [''dawn'', ''dusk'']))
       = [''17000000000005234'', ''170000000000025'']
   \<and> distinct (map scene_id
        (appendedScenes (handleGenerateScenes alice [] tickWithDraws [''dawn'', ''dusk''])))"
proof -
  have tick: "\<forall>i<length [''dawn'', ''dusk'']. dateNowForId (tickWithDraws i) = 1700000000000"
    by (simp add: tickWithDraws_def)
  have p: "producing alice [] tickWithDraws [''dawn'', ''dusk''] = [(0, ''dawn''), (1, ''dusk'')]"
    by (rule producing_dawn_dusk) (simp add: tickWithDraws_def)
  have "map scene_id (appendedScenes (handleGenerateScenes alice [] tickWithDraws [''dawn'', ''dusk'']))
       = [toString 1700000000000 @ drop 2 (mathRandom (tickWithDraws 0)),
          toString 1700000000000 @ drop 2 (mathRandom (tickWithDraws 1))]"
    using scene_ids_in_one_tick [OF tick, of alice "[]"] by (simp add: p)
  then have ids: "map scene_id
        (appendedScenes (handleGenerateScenes alice [] tickWithDraws [''dawn'', ''dusk'']))
       = [''17000000000005234'', ''170000000000025'']"
    by (simp add: toString_tick tickWithDraws_def)
  show ?thesis
    by (simp add: ids)
qed

text \<open>
  The claim as written fails: two scenes minted in the same tick from the same random
  draw have the same id.
\<close>

theorem scene_ids_collide_counterexample:
  "map scene_id (scenes (run idle (handleGenerateScenes alice [] sameTick [''dawn'', ''dusk''])))
     = [''17000000000005234'', ''17000000000005234'']
   \<and> \<not> distinct (map scene_id
          (scenes (run idle (handleGenerateScenes alice [] sameTick [''dawn'', ''dusk'']))))"
proof -
  have p: "producing alice [] sameTick [''dawn'', ''dusk''] = [(0, ''dawn''), (1, ''dusk'')]"
    by (rule producing_dawn_dusk) (simp add: sameTick_def)
  have "map scene_id (scenes (run idle (handleGenerateScenes alice [] sameTick [''dawn'', ''dusk''])))
     = [''17000000000005234'', ''17000000000005234'']"
    by (simp add: handleGenerateScenes_scenes handleGenerateScenes_ids p toString_tick sameTick_def idle_def)
  then show ?thesis by simp
qed

section \<open>Polling\<close>

lemma pollUntilDone_returns:
  assumes "case poll (n + d) of Inl message \<Rightarrow> True | Inr operation' \<Rightarrow> op_done operation'"
  shows "pollUntilDone poll n operation \<noteq> None"
  using assms
proof (induction d arbitrary: n operation)
  case 0
  then show ?case
    by (subst pollUntilDone.simps, cases "poll n")
       (simp_all add: pollUntilDone.simps [of poll "Suc n"])
next
  case (Suc d)
  from Suc.prems have "case poll (Suc n + d) of Inl message \<Rightarrow> True
                        | Inr operation' \<Rightarrow> op_done operation'"
    by simp
  then have "pollUntilDone poll (Suc n) operation' \<noteq> None" for operation'
    by (rule Suc.IH)
  then show ?case
    by (subst pollUntilDone.simps, cases "poll n") simp_all
qed

lemma animateImage_returns:
  assumes "case getVideosOperation service d of
             Inl message \<Rightarrow> True | Inr operation' \<Rightarrow> op_done operation'"
  shows "animateImage service base64Image p \<noteq> None"
proof -
  have polls: "pollUntilDone (getVideosOperation service) 0 operation \<noteq> None" for operation
    using assms pollUntilDone_returns [of "getVideosOperation service" 0 d operation] by simp
  show ?thesis
  proof (cases "generateVideos service p (cleanBase64 base64Image)")
    case (Inl message)
    then show ?thesis by (simp add: animateImage_def)
  next
    case (Inr operation)
    with polls [of operation] show ?thesis
      by (auto simp: animateImage_def split: sum.splits)
  qed
qed

lemma studio_polls:
  "op_done final \<Longrightarrow>
     pollUntilDone (getVideosOperation (studio final download)) 0 pendingOperation
       = Some (Inr final)"
  by (simp add: pollUntilDone.simps studio_def pendingOperation_def)

lemma studio_animates:
  "op_done final \<Longrightarrow>
     animateImage (studio final download) base64Image p
       = Some (rethrown ''Failed to animate scene'' (retrieveVideo (studio final download) final))"
  using studio_polls [of final download]
  by (simp add: animateImage_def) (simp add: studio_def)

lemma studio_success:
  "animateImage (studio finished (Ok ''blob:1'')) base64Image p = Some (Inr ''blob:1'')"
  by (simp add: studio_animates finished_def)
     (simp add: retrieveVideo_def rethrown_def studio_def truthy_def)

lemma studio_AnimationFailed:
  "animateImage (studio failed download) base64Image p
     = Some (Inl ''Video generation failed: quota exceeded'')"
  by (simp add: studio_animates failed_def)
     (simp add: retrieveVideo_def rethrown_def messageOr_def truthy_def)

lemma studio_NoVideoUri:
  "animateImage (studio withoutUri download) base64Image p
     = Some (Inl ''No video URI received from API.'')"
  by (simp add: studio_animates withoutUri_def)
     (simp add: retrieveVideo_def rethrown_def messageOr_def truthy_def)

lemma studio_VideoDownloadFailed:
  "animateImage (studio finished NotOk) base64Image p
     = Some (Inl ''Failed to download generated video.'')"
  by (simp add: studio_animates finished_def)
     (simp add: retrieveVideo_def rethrown_def messageOr_def studio_def truthy_def)

section \<open>The animating set\<close>

lemma handleAnimateScene_started:
  assumes "find (\<lambda>s. scene_id s = sceneId) scenes' = Some scene"
      and "\<forall>message. g \<noteq> GateRejected message"
  shows "handleAnimateScene scenes' g service sceneId =
     (case animateImage service (imageData scene) (prompt scene) of
        None \<Rightarrow> Pending [AddAnimating sceneId]
      | Some r \<Rightarrow>
          Returned [AddAnimating sceneId,
                    (case r of Inr url \<Rightarrow> SetVideoUrl sceneId url
                     | Inl message \<Rightarrow> SetError (Some (''Animation failed: '' @ message))),
                    DeleteAnimating sceneId])"
  using assms
  by (cases g) (simp_all add: handleAnimateScene_def split: option.splits sum.splits)

lemma animating_after_update:
  "(case r of Inr url \<Rightarrow> SetVideoUrl sceneId url
    | Inl message \<Rightarrow> SetError (Some (''Animation failed: '' @ message))) = u \<Longrightarrow>
   animatingSceneIds (apply_effect st u) = animatingSceneIds st"
  by (cases r) auto

text \<open>
  C7. When the scene exists and the gate lets the job start, the first update adds the
  scene id to the animating set, and the id is in the set after every update short of
  the last. While the video is awaited nothing else has been issued and the id is in the
  set. When \<open>animateImage\<close> ends, with a video or with any error, the handler returns, its
  last update deletes the id, and the id is not in the set afterwards.
\<close>

theorem animating_set_membership:
  assumes "find (\<lambda>s. scene_id s = sceneId) scenes' = Some scene"
      and "\<forall>message. g \<noteq> GateRejected message"
  shows "let es = issued (handleAnimateScene scenes' g service sceneId)
         in es \<noteq> [] \<and> hd es = AddAnimating sceneId
            \<and> (\<forall>k. 0 < k \<and> k < length es \<longrightarrow>
                  sceneId \<in> animatingSceneIds (run st (take k es)))
            \<and> (case animateImage service (imageData scene) (prompt scene) of
                  None \<Rightarrow>
                    handleAnimateScene scenes' g service sceneId = Pending es
                    \<and> sceneId \<in> animatingSceneIds (run st es)
                | Some r \<Rightarrow>
                    handleAnimateScene scenes' g service sceneId = Returned es
                    \<and> last es = DeleteAnimating sceneId
                    \<and> sceneId \<notin> animatingSceneIds (run st es))"
proof (cases "animateImage service (imageData scene) (prompt scene)")
  case None
  then have h: "handleAnimateScene scenes' g service sceneId = Pending [AddAnimating sceneId]"
    by (simp add: handleAnimateScene_started [OF assms])
  show ?thesis
    by (simp add: h None issued_def run_def)
next
  case (Some r)
  define u where "u = (case r of Inr url \<Rightarrow> SetVideoUrl sceneId url
                       | Inl message \<Rightarrow> SetError (Some (''Animation failed: '' @ message)))"
  have h: "handleAnimateScene scenes' g service sceneId =
      Returned [AddAnimating sceneId, u, DeleteAnimating sceneId]"
    by (simp add: handleAnimateScene_started [OF assms] Some u_def)
  have keep: "animatingSceneIds (apply_effect st' u) = animatingSceneIds st'" for st'
    using u_def by (intro animating_after_update) simp
  have pre: "sceneId \<in> animatingSceneIds (run st (take k [AddAnimating sceneId, u, DeleteAnimating sceneId]))"
    if "0 < k" "k < 3" for k
  proof -
    from that have "k = 1 \<or> k = 2" by arith
    then show ?thesis
      by (auto simp: run_def keep)
  qed
  show ?thesis
    using pre by (simp add: h Some issued_def run_def keep)
qed

theorem animating_set_membership_witness:
  "find (\<lambda>s. scene_id s = ''170000000000025'') [dawnScene, duskScene] = Some duskScene
   \<and> handleAnimateScene [dawnScene, duskScene] NoKeyAskedFor (studio failed NotOk) ''170000000000025''
       = Returned [AddAnimating ''170000000000025'',
                   SetError (Some ''Animation failed: Video generation failed: quota exceeded''),
                   DeleteAnimating ''170000000000025'']
   \<and> ''170000000000025'' \<in> animatingSceneIds (run gallery [AddAnimating ''170000000000025''])
   \<and> ''170000000000025'' \<notin> animatingSceneIds (run gallery
        (issued (handleAnimateScene [dawnScene, duskScene] NoKeyAskedFor (studio failed NotOk)
           ''170000000000025'')))"
proof -
  have f: "find (\<lambda>s. scene_id s = ''170000000000025'') [dawnScene, duskScene] = Some duskScene"
    by (simp add: dawnScene_def duskScene_def)
  have g: "\<forall>message. NoKeyAskedFor \<noteq> GateRejected message"
    by simp
  have a: "animateImage (studio failed NotOk) (imageData duskScene) (prompt duskScene)
      = Some (Inl ''Video generation failed: quota exceeded'')"
    by (rule studio_AnimationFailed)
  have h: "handleAnimateScene [dawnScene, duskScene] NoKeyAskedFor (studio failed NotOk) ''170000000000025''
       = Returned [AddAnimating ''170000000000025'',
                   SetError (Some ''Animation failed: Video generation failed: quota exceeded''),
                   DeleteAnimating ''170000000000025'']"
    by (simp add: handleAnimateScene_started [OF f g] a)
  have "\<forall>k. 0 < k \<and> k < length [AddAnimating ''170000000000025'',
                   SetError (Some ''Animation failed: Video generation failed: quota exceeded''),
                   DeleteAnimating ''170000000000025''] \<longrightarrow>
        ''170000000000025'' \<in> animatingSceneIds (run gallery (take k
           [AddAnimating ''170000000000025'',
            SetError (Some ''Animation failed: Video generation failed: quota exceeded''),
            DeleteAnimating ''170000000000025'']))"
    using animating_set_membership [OF f g, of "studio failed NotOk" gallery]
    unfolding Let_def h issued_def by simp
  from this [rule_format, of 1]
  have m: "''170000000000025'' \<in> animatingSceneIds (run gallery [AddAnimating ''170000000000025''])"
    by simp
  have n: "''170000000000025'' \<notin> animatingSceneIds (run gallery
        (issued (handleAnimateScene [dawnScene, duskScene] NoKeyAskedFor (studio failed NotOk)
           ''170000000000025'')))"
    using animating_set_membership [OF f g, of "studio failed NotOk" gallery]
    by (simp add: Let_def a)
  from f h m n show ?thesis by simp
qed

text \<open>The four ways out of the job, each leaving the animating set empty again.\<close>

lemma four_exits_free_the_scene:
  "service \<in> {studio finished (Ok ''blob:1''), studio failed NotOk, studio withoutUri NotOk,
               studio finished NotOk} \<Longrightarrow>
   animatingSceneIds (run gallery (issued (handleAnimateScene [dawnScene, duskScene] GateAbsent
      service ''170000000000025''))) = {}"
proof -
  have f: "find (\<lambda>s. scene_id s = ''170000000000025'') [dawnScene, duskScene] = Some duskScene"
    by (simp add: dawnScene_def duskScene_def)
  have g: "\<forall>message. GateAbsent \<noteq> GateRejected message"
    by simp
  assume "service \<in> {studio finished (Ok ''blob:1''), studio failed NotOk,
                       studio withoutUri NotOk, studio finished NotOk}"
  then consider "service = studio finished (Ok ''blob:1'')" | "service = studio failed NotOk"
    | "service = studio withoutUri NotOk" | "service = studio finished NotOk"
    by blast
  then show ?thesis
  proof cases
    case 1
    then show ?thesis
      by (simp add: handleAnimateScene_started [OF f g] studio_success issued_def run_def
            gallery_def)
  next
    case 2
    then show ?thesis
      by (simp add: handleAnimateScene_started [OF f g] studio_AnimationFailed issued_def
            run_def gallery_def)
  next
    case 3
    then show ?thesis
      by (simp add: handleAnimateScene_started [OF f g] studio_NoVideoUri issued_def run_def
            gallery_def)
  next
    case 4
    then show ?thesis
      by (simp add: handleAnimateScene_started [OF f g] studio_VideoDownloadFailed issued_def
            run_def gallery_def)
  qed
qed

section \<open>What a finished animation changes\<close>

lemma SetVideoUrl_frame:
  assumes "i < length (scenes st)"
  shows "let s = scenes st ! i; s' = scenes (apply_effect st (SetVideoUrl sceneId url)) ! i
         in scene_id s' = scene_id s \<and> prompt s' = prompt s \<and> imageData s' = imageData s
            \<and> timestamp s' = timestamp s
            \<and> (if scene_id s = sceneId then videoUrl s' = Some url else s' = s)"
  using assms by (simp add: Let_def)

text \<open>
  C8. When the job for scene id \<open>S\<close> succeeds with a video URL, the scene list keeps its
  length and order; a scene with id \<open>S\<close> has its \<open>videoUrl\<close> set to that URL and its id,
  prompt, image and timestamp unchanged; every other scene is unchanged; status, error
  and progress are unchanged.
\<close>

theorem animation_success_sets_only_videoUrl:
  assumes "find (\<lambda>s. scene_id s = sceneId) scenes' = Some scene"
      and "\<forall>message. g \<noteq> GateRejected message"
      and "animateImage service (imageData scene) (prompt scene) = Some (Inr url)"
  shows "let out = handleAnimateScene scenes' g service sceneId; st' = run st (issued out)
         in out = Returned (issued out)
            \<and> length (scenes st') = length (scenes st)
            \<and> (\<forall>i<length (scenes st).
                  let s = scenes st ! i; s' = scenes st' ! i
                  in scene_id s' = scene_id s \<and> prompt s' = prompt s
                     \<and> imageData s' = imageData s \<and> timestamp s' = timestamp s
                     \<and> (if scene_id s = sceneId then videoUrl s' = Some url else s' = s))
            \<and> status st' = status st \<and> error st' = error st \<and> progress st' = progress st"
proof -
  have h: "handleAnimateScene scenes' g service sceneId =
      Returned [AddAnimating sceneId, SetVideoUrl sceneId url, DeleteAnimating sceneId]"
    by (simp add: handleAnimateScene_started [OF assms(1,2)] assms(3))
  have sc: "scenes (run st [AddAnimating sceneId, SetVideoUrl sceneId url, DeleteAnimating sceneId])
      = scenes (apply_effect st (SetVideoUrl sceneId url))"
    by (simp add: run_def)
  have rest: "status (run st [AddAnimating sceneId, SetVideoUrl sceneId url, DeleteAnimating sceneId]) = status st"
    "error (run st [AddAnimating sceneId, SetVideoUrl sceneId url, DeleteAnimating sceneId]) = error st"
    "progress (run st [AddAnimating sceneId, SetVideoUrl sceneId url, DeleteAnimating sceneId]) = progress st"
    by (simp_all add: run_def)
  have len: "length (scenes (apply_effect st (SetVideoUrl sceneId url))) = length (scenes st)"
    by simp
  show ?thesis
    unfolding Let_def h issued_def outcome.case sc rest
    using SetVideoUrl_frame [of _ st sceneId url] len
    unfolding Let_def by blast
qed

theorem animation_success_sets_only_videoUrl_witness:
  "find (\<lambda>s. scene_id s = ''170000000000025'') [dawnScene, duskScene] = Some duskScene
   \<and> animateImage (studio finished (Ok ''blob:1'')) (imageData duskScene) (prompt duskScene)
       = Some (Inr ''blob:1'')
   \<and> scenes (run gallery (issued (handleAnimateScene [dawnScene, duskScene] KeySelected
        (studio finished (Ok ''blob:1'')) ''170000000000025'')))
       = [dawnScene, duskScene\<lparr>videoUrl := Some ''blob:1''\<rparr>]"
proof -
  have f: "find (\<lambda>s. scene_id s = ''170000000000025'') [dawnScene, duskScene] = Some duskScene"
    by (simp add: dawnScene_def duskScene_def)
  have g: "\<forall>message. KeySelected \<noteq> GateRejected message"
    by simp
  have a: "animateImage (studio finished (Ok ''blob:1'')) (imageData duskScene) (prompt duskScene)
       = Some (Inr ''blob:1'')"
    by (rule studio_success)
  define st' where "st' = run gallery (issued (handleAnimateScene [dawnScene, duskScene]
     KeySelected (studio finished (Ok ''blob:1'')) ''170000000000025''))"
  have th: "length (scenes st') = length (scenes gallery)
     \<and> (\<forall>i<length (scenes gallery).
                  let s = scenes gallery ! i; s' = scenes st' ! i
                  in scene_id s' = scene_id s \<and> prompt s' = prompt s
                     \<and> imageData s' = imageData s \<and> timestamp s' = timestamp s
                     \<and> (if scene_id s = ''170000000000025'' then videoUrl s' = Some ''blob:1'' else s' = s))"
    using animation_success_sets_only_videoUrl [OF f g a, of gallery]
    unfolding Let_def st'_def by blast
  have l: "length (scenes st') = 2"
    using th by (simp add: gallery_def)
  have s0: "scenes st' ! 0 = dawnScene"
    using th [THEN conjunct2, rule_format, of 0]
    by (simp add: gallery_def Let_def dawnScene_def)
  have s1: "scenes st' ! 1 = duskScene\<lparr>videoUrl := Some ''blob:1''\<rparr>"
    using th [THEN conjunct2, rule_format, of 1]
    by (simp add: gallery_def Let_def duskScene_def)
  have "scenes st' = [dawnScene, duskScene\<lparr>videoUrl := Some ''blob:1''\<rparr>]"
    using l s0 s1 by (auto simp: list_eq_iff_nth_eq nth_Cons' less_Suc_eq numeral_2_eq_2)
  with f a show ?thesis
    unfolding st'_def by simp
qed

section \<open>Script analysis\<close>

text \<open>
  C9, amended. What is sent after the fixed instructions is the first 100000 code units
  of the script, and nothing of the script beyond them affects the result. A response
  whose text is missing or empty gives the empty list. A response whose text
  \<open>JSON.parse\<close> rejects makes \<open>analyzeScript\<close> fail with the parser's message (or the
  fallback message when that is empty); it does not give the empty list.
\<close>

theorem analyzeScript_truncates_and_rethrows:
  "drop (length (userPrompt known [])) (userPrompt known scriptText) = take 100000 scriptText
   \<and> length (take 100000 scriptText) \<le> 100000
   \<and> analyzeScript generateText JSON_parse scriptText known =
       analyzeScript generateText JSON_parse (take 100000 scriptText) known
   \<and> (generateText \<lparr>contents = userPrompt known scriptText, systemInstruction = systemPrompt\<rparr>
         \<in> {Inr None, Inr (Some [])} \<longrightarrow>
        analyzeScript generateText JSON_parse scriptText known = Inr [])
   \<and> (generateText \<lparr>contents = userPrompt known scriptText, systemInstruction = systemPrompt\<rparr>
         = Inr (Some text) \<and> text \<noteq> [] \<and> JSON_parse text = Inl message \<longrightarrow>
        analyzeScript generateText JSON_parse scriptText known =
          Inl (if message \<noteq> [] then message else ''Failed to analyze script''))"
proof -
  have u: "userPrompt known (take 100000 scriptText) = userPrompt known scriptText"
    by (simp add: userPrompt_def)
  have d: "drop (length (userPrompt known [])) (userPrompt known scriptText) = take 100000 scriptText"
    by (simp add: userPrompt_def)
  show ?thesis
    unfolding d
    by (auto simp: analyzeScript_def u rethrown_def messageOr_def truthy_def)
qed

theorem analyzeScript_truncates_and_rethrows_witness:
  "analyzeScript noAnswer syntaxError (replicate 100001 CHR ''a'') [''Alice'']
     = analyzeScript noAnswer syntaxError (replicate 100000 CHR ''a'') [''Alice'']
   \<and> analyzeScript noAnswer syntaxError ''Alice waves.'' [''Alice''] = Inr []
   \<and> analyzeScript proseAnswer syntaxError ''Alice waves.'' [''Alice'']
       = Inl ''Unexpected token S in JSON at position 0''"
proof -
  have a: "analyzeScript noAnswer syntaxError (replicate 100001 CHR ''a'') [''Alice'']
     = analyzeScript noAnswer syntaxError (replicate 100000 CHR ''a'') [''Alice'']"
    using analyzeScript_truncates_and_rethrows
      [of "[''Alice'']" "replicate 100001 CHR ''a''" noAnswer syntaxError]
    by simp
  have b: "analyzeScript noAnswer syntaxError ''Alice waves.'' [''Alice''] = Inr []"
    using analyzeScript_truncates_and_rethrows
      [of "[''Alice'']" "''Alice waves.''" noAnswer syntaxError]
    by (simp add: noAnswer_def)
  have c: "analyzeScript proseAnswer syntaxError ''Alice waves.'' [''Alice'']
       = Inl ''Unexpected token S in JSON at position 0''"
    using analyzeScript_truncates_and_rethrows
      [of "[''Alice'']" "''Alice waves.''" proseAnswer syntaxError "''Sorry, I cannot help.''"
          "''Unexpected token S in JSON at position 0''"]
    by (simp add: proseAnswer_def syntaxError_def)
  from a b c show ?thesis by simp
qed

text \<open>The claim as written fails: a prose answer is rejected, not turned into \<open>[]\<close>.\<close>

theorem analyzeScript_unparseable_counterexample:
  "analyzeScript proseAnswer syntaxError ''Alice waves.'' [''Alice'']
     = Inl ''Unexpected token S in JSON at position 0''
   \<and> analyzeScript proseAnswer syntaxError ''Alice waves.'' [''Alice''] \<noteq> Inr []"
  by (simp add: analyzeScript_def proseAnswer_def syntaxError_def rethrown_def messageOr_def
        truthy_def)

section \<open>The empty batch\<close>

text \<open>
  C10. With an empty list of prompts the handler issues no update at all, so status,
  progress, error and scenes are what they were.
\<close>

theorem empty_batch_is_noop:
  "handleGenerateScenes c saved w [] = []
   \<and> run st (handleGenerateScenes c saved w []) = st"
  by (simp add: handleGenerateScenes_def run_def)

theorem empty_batch_is_noop_witness:
  "run gallery (handleGenerateScenes alice [alice] sameTick []) = gallery"
  by (rule empty_batch_is_noop [THEN conjunct2])

end
